theory Spec2Isabelle
  imports Complex_Main "HOL-Library.Word"
begin

section \<open>Loop-closure candidate model (LoopClosureDetector-definitions.h)\<close>

subsection \<open>Scalar types\<close>

text \<open>
  \<^verbatim>\<open>double\<close> values are read through what they denote: a finite number (the two signed
  zeros denote the same number and compare equal), one of the two infinities, or a NaN.
  The only operations the loop-closure structs apply to a \<^verbatim>\<open>double\<close> are the built-in
  comparisons \<^verbatim>\<open><\<close> and \<^verbatim>\<open>>\<close>, which on these values behave as below: every comparison
  with a NaN operand is false.
\<close>

datatype double = Finite real | PlusInfinity | MinusInfinity | NaN

fun double_less :: "double \<Rightarrow> double \<Rightarrow> bool" where
  "double_less NaN _ = False"
| "double_less _ NaN = False"
| "double_less (Finite a) (Finite b) = (a < b)"
| "double_less (Finite _) PlusInfinity = True"
| "double_less (Finite _) MinusInfinity = False"
| "double_less PlusInfinity _ = False"
| "double_less MinusInfinity MinusInfinity = False"
| "double_less MinusInfinity _ = True"

definition double_greater :: "double \<Rightarrow> double \<Rightarrow> bool" where
  "double_greater a b = double_less b a"

subsection \<open>LCDStatus and LoopResult\<close>

datatype LCDStatus =
    LOOP_DETECTED
  | NO_MATCHES
  | LOW_NSS_FACTOR
  | LOW_SCORE
  | NO_GROUPS
  | FAILED_TEMPORAL_CONSTRAINT
  | FAILED_GEOM_VERIFICATION
  | FAILED_POSE_RECOVERY

text \<open>
  \<^verbatim>\<open>FrameId\<close> is declared in \<^verbatim>\<open>common/vio_types.h\<close>, which is not part of the sources at
  hand; it is taken as an unsigned machine integer of some width \<open>'w\<close>, and
  \<^verbatim>\<open>size_t\<close> as an integer of the same width. \<^verbatim>\<open>gtsam::Pose3\<close> is a type parameter.
  A name cannot end in an underscore here, so each member \<^verbatim>\<open>name_\<close> of the source is the
  field \<open>name\<close>.
\<close>

record (overloaded) ('w, 'pose) LoopResult =
  status :: LCDStatus
  query_id :: "'w word"
  match_id :: "'w word"
  relative_pose :: 'pose

definition isLoop :: "('w::len, 'pose) LoopResult \<Rightarrow> bool" where
  "isLoop r = (status r = LOOP_DETECTED)"

fun asString :: "LCDStatus \<Rightarrow> string" where
  "asString LOOP_DETECTED = ''LOOP_DETECTED''"
| "asString NO_MATCHES = ''NO_MATCHES''"
| "asString LOW_NSS_FACTOR = ''LOW_NSS_FACTOR''"
| "asString LOW_SCORE = ''LOW_SCORE''"
| "asString NO_GROUPS = ''NO_GROUPS''"
| "asString FAILED_TEMPORAL_CONSTRAINT = ''FAILED_TEMPORAL_CONSTRAINT''"
| "asString FAILED_GEOM_VERIFICATION = ''FAILED_GEOM_VERIFICATION''"
| "asString FAILED_POSE_RECOVERY = ''FAILED_POSE_RECOVERY''"

subsection \<open>MatchIsland\<close>

record (overloaded) 'w MatchIsland =
  start_id :: "'w word"
  end_id :: "'w word"
  island_score :: double
  best_id :: "'w word"
  best_score :: double

text \<open>The three constructors, in the order of the source.\<close>

definition MatchIsland_default :: "('w::len) MatchIsland" where
  "MatchIsland_default =
     \<lparr>start_id = 0, end_id = 0, island_score = Finite 0,
      best_id = 0, best_score = Finite 0\<rparr>"

definition MatchIsland_range :: "('w::len) word \<Rightarrow> 'w word \<Rightarrow> 'w MatchIsland" where
  "MatchIsland_range start end =
     \<lparr>start_id = start, end_id = end, island_score = Finite 0,
      best_id = 0, best_score = Finite 0\<rparr>"

definition MatchIsland_scored ::
  "('w::len) word \<Rightarrow> 'w word \<Rightarrow> double \<Rightarrow> 'w MatchIsland" where
  "MatchIsland_scored start end score =
     \<lparr>start_id = start, end_id = end, island_score = score,
      best_id = 0, best_score = Finite 0\<rparr>"

text \<open>\<^verbatim>\<open>operator<\<close> and \<^verbatim>\<open>operator>\<close>.\<close>

definition island_less :: "('w::len) MatchIsland \<Rightarrow> 'w MatchIsland \<Rightarrow> bool" where
  "island_less a other = double_less (island_score a) (island_score other)"

definition island_greater :: "('w::len) MatchIsland \<Rightarrow> 'w MatchIsland \<Rightarrow> bool" where
  "island_greater a other = double_greater (island_score a) (island_score other)"

text \<open>\<^verbatim>\<open>size()\<close>: the arithmetic is unsigned and wraps around.\<close>

definition size_island :: "('w::len) MatchIsland \<Rightarrow> 'w word" where
  "size_island m = end_id m - start_id m + 1"

definition clear :: "('w::len) MatchIsland \<Rightarrow> 'w MatchIsland" where
  "clear m =
     m\<lparr>start_id := 0, end_id := 0, island_score := Finite 0,
       best_id := 0, best_score := Finite 0\<rparr>"

text \<open>The islands that the constructors and \<^verbatim>\<open>clear()\<close> can produce.\<close>

inductive reachable :: "('w::len) MatchIsland \<Rightarrow> bool" where
  by_default: "reachable MatchIsland_default"
| by_range: "reachable (MatchIsland_range start end)"
| by_scored: "reachable (MatchIsland_scored start end score)"
| by_clear: "reachable m \<Longrightarrow> reachable (clear m)"

text \<open>
  Two islands are equivalent under the ordering when neither is less than the other; a
  strict weak order is a strict partial order whose equivalence is transitive.
\<close>

definition island_equiv :: "('w::len) MatchIsland \<Rightarrow> 'w MatchIsland \<Rightarrow> bool" where
  "island_equiv a b = (\<not> island_less a b \<and> \<not> island_less b a)"


section \<open>Optical-flow predictors (Tracker.h)\<close>

subsection \<open>Points, vectors, matrices and the arithmetic on them\<close>

text \<open>
  \<^verbatim>\<open>cv::Point2f\<close>, \<^verbatim>\<open>cv::Vec3f\<close> and \<^verbatim>\<open>cv::Matx33f\<close> over a scalar type \<open>'a\<close> that stands for
  \<^verbatim>\<open>float\<close>; a matrix is the triple of its rows. \<^verbatim>\<open>KeypointsCV\<close> is a vector of points.
\<close>

datatype 'a Point2f = Point2f (pt_x: 'a) (pt_y: 'a)

type_synonym 'a Vec3f = "'a \<times> 'a \<times> 'a"

type_synonym 'a Matx33f = "'a Vec3f \<times> 'a Vec3f \<times> 'a Vec3f"

type_synonym 'a KeypointsCV = "'a Point2f list"

definition vec0 :: "'a Vec3f \<Rightarrow> 'a" where
  "vec0 v = fst v"

definition vec1 :: "'a Vec3f \<Rightarrow> 'a" where
  "vec1 v = fst (snd v)"

definition vec2 :: "'a Vec3f \<Rightarrow> 'a" where
  "vec2 v = snd (snd v)"

text \<open>
  The operations of OpenCV, gtsam and \<^verbatim>\<open>UtilsOpenCV\<close> that the predictor calls are not in the
  sources at hand, and single-precision arithmetic rounds; they are parameters of the
  model, so that what is proved of the predictor holds for whatever these operations
  compute:
  \<^item> \<open>zero\<close> and \<open>one\<close>: the constants \<^verbatim>\<open>0.0f\<close> and \<^verbatim>\<open>1.0f\<close>;
  \<^item> \<open>divide_f\<close>: the division of two \<^verbatim>\<open>float\<close>s;
  \<^item> \<open>greater_f\<close>: the comparison \<^verbatim>\<open>>\<close> of two \<^verbatim>\<open>float\<close>s;
  \<^item> \<open>matx_mul\<close>: \<^verbatim>\<open>operator*\<close> on two \<^verbatim>\<open>cv::Matx33f\<close>;
  \<^item> \<open>matx_vec\<close>: \<^verbatim>\<open>operator*\<close> on a \<^verbatim>\<open>cv::Matx33f\<close> and a \<^verbatim>\<open>cv::Vec3f\<close>;
  \<^item> \<open>matx_inv\<close>: \<^verbatim>\<open>cv::Matx33f::inv()\<close>;
  \<^item> \<open>rot_matrix\<close>: \<^verbatim>\<open>UtilsOpenCV::gtsamMatrix3ToCvMat\<close> applied to \<^verbatim>\<open>gtsam::Rot3::matrix()\<close>;
  \<^item> \<open>rot_default\<close>: the default-constructed \<^verbatim>\<open>gtsam::Rot3\<close>.
\<close>

record ('a, 'rot) arith =
  zero :: 'a
  one :: 'a
  divide_f :: "'a \<Rightarrow> 'a \<Rightarrow> 'a"
  greater_f :: "'a \<Rightarrow> 'a \<Rightarrow> bool"
  matx_mul :: "'a Matx33f \<Rightarrow> 'a Matx33f \<Rightarrow> 'a Matx33f"
  matx_vec :: "'a Matx33f \<Rightarrow> 'a Vec3f \<Rightarrow> 'a Vec3f"
  matx_inv :: "'a Matx33f \<Rightarrow> 'a Matx33f"
  rot_matrix :: "'rot \<Rightarrow> 'a Matx33f"
  rot_default :: 'rot

text \<open>
  How a call can end without a result: \<^verbatim>\<open>CHECK_NOTNULL\<close> aborts the process on a null
  pointer, \<^verbatim>\<open>std::vector::at\<close> throws on an index out of range, \<^verbatim>\<open>operator[]\<close> on an
  index out of range is undefined, and so is reaching the end of a function that is
  declared to return a value without a \<^verbatim>\<open>return\<close> statement.
\<close>

datatype failure = CheckNotNull | OutOfRange | UndefinedIndex | MissingReturn

text \<open>
  An output parameter \<^verbatim>\<open>KeypointsCV* next_kps\<close> is \<open>None\<close> for the null pointer and
  \<open>Some old\<close> for a pointer to a vector, an object other than \<^verbatim>\<open>prev_kps\<close>, that holds
  \<open>old\<close> before the call. A call that returns gives the returned boolean and the vector
  behind the pointer after the call.
\<close>

subsection \<open>SillyOpticalFlowPredictor\<close>

definition Silly_predictFlow ::
  "'a KeypointsCV \<Rightarrow> 'a KeypointsCV option \<Rightarrow> failure + (bool \<times> 'a KeypointsCV)" where
  "Silly_predictFlow prev_kps next_kps =
     (case next_kps of
        None \<Rightarrow> Inl CheckNotNull
      | Some old \<Rightarrow> Inr (True, prev_kps))"

subsection \<open>RotationalOpticalFlowPredictor\<close>

record ('a, 'rot) RotationalOpticalFlowPredictor =
  K :: "'a Matx33f"
  K_inverse :: "'a Matx33f"
  inter_frame_rotation :: 'rot

text \<open>The constructor: \<^verbatim>\<open>K_(K), K_inverse_(K.inv())\<close>, the rotation default-constructed.\<close>

definition Rotational_new ::
  "('a, 'rot) arith \<Rightarrow> 'a Matx33f \<Rightarrow> ('a, 'rot) RotationalOpticalFlowPredictor" where
  "Rotational_new ar k =
     \<lparr>K = k, K_inverse = matx_inv ar k, inter_frame_rotation = rot_default ar\<rparr>"

text \<open>
  \<^verbatim>\<open>updateInterFrameRotation\<close> assigns the member and then reaches the closing brace of a
  function declared to return \<^verbatim>\<open>bool\<close> without a \<^verbatim>\<open>return\<close> statement. The model returns
  the state after the assignment and the returned value, \<open>None\<close> when the body ends
  without returning one.
\<close>

definition updateInterFrameRotation ::
  "('a, 'rot) RotationalOpticalFlowPredictor \<Rightarrow> 'rot \<Rightarrow>
   ('a, 'rot) RotationalOpticalFlowPredictor \<times> bool option" where
  "updateInterFrameRotation p rotation = (p\<lparr>inter_frame_rotation := rotation\<rparr>, None)"

text \<open>
  A sequence of calls. A call that ends without a value to return is undefined
  behaviour: nothing is defined after it, neither a state for the next call to start
  from nor a rotation for a later \<^verbatim>\<open>predictFlow\<close> to read, and the sequence ends in the
  failure \<open>MissingReturn\<close>. Only a call that returns a boolean is followed by the next.
\<close>

fun update_all ::
  "('a, 'rot) RotationalOpticalFlowPredictor \<Rightarrow> 'rot list \<Rightarrow>
   failure + ('a, 'rot) RotationalOpticalFlowPredictor" where
  "update_all p [] = Inr p"
| "update_all p (r # rs) =
     (case updateInterFrameRotation p r of
        (p', None) \<Rightarrow> Inl MissingReturn
      | (p', Some b) \<Rightarrow> update_all p' rs)"

text \<open>
  The loop of \<^verbatim>\<open>predictFlow\<close>, from index \<open>i\<close>: \<^verbatim>\<open>prev_kps[i]\<close> is read with \<^verbatim>\<open>operator[]\<close>,
  \<^verbatim>\<open>next_kps->at(i)\<close> is written with the checked \<^verbatim>\<open>at\<close>.
\<close>

function predictFlow_loop ::
  "('a, 'rot) arith \<Rightarrow> 'a Matx33f \<Rightarrow> 'a KeypointsCV \<Rightarrow> nat \<Rightarrow> nat \<Rightarrow> 'a KeypointsCV \<Rightarrow>
   failure + 'a KeypointsCV" where
  "predictFlow_loop ar H prev_kps n_kps i next_kps =
     (if i < n_kps then
        (if length prev_kps \<le> i then Inl UndefinedIndex
         else
           let p1 = (pt_x (prev_kps ! i), pt_y (prev_kps ! i), one ar);
               p2 = matx_vec ar H p1
           in if greater_f ar (vec2 p2) (zero ar) then
                (if length next_kps \<le> i then Inl OutOfRange
                 else predictFlow_loop ar H prev_kps n_kps (Suc i)
                        (next_kps[i := Point2f (divide_f ar (vec0 p2) (vec2 p2))
                                               (divide_f ar (vec1 p2) (vec2 p2))]))
              else
                (if length next_kps \<le> i then Inl OutOfRange
                 else predictFlow_loop ar H prev_kps n_kps (Suc i)
                        (next_kps[i := prev_kps ! i])))
      else Inr next_kps)"
  by pat_completeness auto
termination
  by (relation "measure (\<lambda>(ar, H, prev_kps, n_kps, i, next_kps). n_kps - i)") auto

text \<open>
  \<^verbatim>\<open>predictFlow\<close>: the vector behind the pointer is cleared and resized to the number of
  previous keypoints, which fills it with default points \<^verbatim>\<open>(0, 0)\<close>; then the loop runs.
\<close>

definition Rotational_predictFlow ::
  "('a, 'rot) arith \<Rightarrow> ('a, 'rot) RotationalOpticalFlowPredictor \<Rightarrow>
   'a KeypointsCV \<Rightarrow> 'a KeypointsCV option \<Rightarrow> failure + (bool \<times> 'a KeypointsCV)" where
  "Rotational_predictFlow ar p prev_kps next_kps =
     (case next_kps of
        None \<Rightarrow> Inl CheckNotNull
      | Some old \<Rightarrow>
          let R = rot_matrix ar (inter_frame_rotation p);
              H = matx_mul ar (matx_mul ar (K p) R) (K_inverse p);
              n_kps = length prev_kps
          in (case predictFlow_loop ar H prev_kps n_kps 0
                     (replicate n_kps (Point2f (zero ar) (zero ar))) of
                Inl e \<Rightarrow> Inl e
              | Inr out \<Rightarrow> Inr (True, out)))"

text \<open>A sequence of updates of the rotation followed by a call of \<^verbatim>\<open>predictFlow\<close>.\<close>

definition predictFlow_after_updates ::
  "('a, 'rot) arith \<Rightarrow> ('a, 'rot) RotationalOpticalFlowPredictor \<Rightarrow> 'rot list \<Rightarrow>
   'a KeypointsCV \<Rightarrow> 'a KeypointsCV option \<Rightarrow> failure + (bool \<times> 'a KeypointsCV)" where
  "predictFlow_after_updates ar p rotations prev_kps next_kps =
     (case update_all p rotations of
        Inl e \<Rightarrow> Inl e
      | Inr p' \<Rightarrow> Rotational_predictFlow ar p' prev_kps next_kps)"

subsection \<open>Arithmetic without rounding\<close>

text \<open>
  One choice of the parameters, used to run the predictor on concrete inputs: real
  numbers with exact operations, the usual product of matrices, the inverse by the
  adjugate (the zero matrix for a singular argument, as \<^verbatim>\<open>cv::Matx::inv\<close> returns when the
  inversion fails), and a rotation given by its matrix.
\<close>

definition dot3 :: "real Vec3f \<Rightarrow> real Vec3f \<Rightarrow> real" where
  "dot3 a b = vec0 a * vec0 b + vec1 a * vec1 b + vec2 a * vec2 b"

definition column :: "(real Vec3f \<Rightarrow> real) \<Rightarrow> real Matx33f \<Rightarrow> real Vec3f" where
  "column c m = (c (fst m), c (fst (snd m)), c (snd (snd m)))"

definition exact_matx_vec :: "real Matx33f \<Rightarrow> real Vec3f \<Rightarrow> real Vec3f" where
  "exact_matx_vec m v = (dot3 (fst m) v, dot3 (fst (snd m)) v, dot3 (snd (snd m)) v)"

definition exact_matx_mul :: "real Matx33f \<Rightarrow> real Matx33f \<Rightarrow> real Matx33f" where
  "exact_matx_mul a b =
     (let row = (\<lambda>r. (dot3 r (column vec0 b), dot3 r (column vec1 b), dot3 r (column vec2 b)))
      in (row (fst a), row (fst (snd a)), row (snd (snd a))))"

definition identity33 :: "real Matx33f" where
  "identity33 = ((1, 0, 0), (0, 1, 0), (0, 0, 1))"

definition zeros33 :: "real Matx33f" where
  "zeros33 = ((0, 0, 0), (0, 0, 0), (0, 0, 0))"

fun determinant :: "real Matx33f \<Rightarrow> real" where
  "determinant ((a, b, c), (d, e, f), (g, h, i)) =
     a * (e * i - f * h) - b * (d * i - f * g) + c * (d * h - e * g)"

fun exact_matx_inv :: "real Matx33f \<Rightarrow> real Matx33f" where
  "exact_matx_inv ((a, b, c), (d, e, f), (g, h, i)) =
     (let det = determinant ((a, b, c), (d, e, f), (g, h, i))
      in if det = 0 then zeros33
         else (((e * i - f * h) / det, (c * h - b * i) / det, (b * f - c * e) / det),
               ((f * g - d * i) / det, (a * i - c * g) / det, (c * d - a * f) / det),
               ((d * h - e * g) / det, (b * g - a * h) / det, (a * e - b * d) / det)))"

definition exact_arith :: "(real, real Matx33f) arith" where
  "exact_arith =
     \<lparr>zero = 0, one = 1, divide_f = (\<lambda>a b. a / b), greater_f = (\<lambda>a b. b < a),
      matx_mul = exact_matx_mul, matx_vec = exact_matx_vec, matx_inv = exact_matx_inv,
      rot_matrix = (\<lambda>r. r), rot_default = identity33\<rparr>"

subsection \<open>Single-precision arithmetic\<close>

text \<open>
  Another choice of the parameters: the numbers of IEEE 754 binary32, each read as the
  real number it denotes. An operation is the exact operation followed by rounding to
  the nearest number with a significand of 24 bits and an exponent of at least \<open>-149\<close>,
  ties to the even significand. Infinities and NaN are not represented: a result above the
  largest finite number is rounded as if the exponent had no upper bound, so the instance
  is that arithmetic for computations that stay in the finite range.
\<close>

fun bit_length :: "nat \<Rightarrow> nat" where
  "bit_length n = (if n = 0 then 0 else Suc (bit_length (n div 2)))"

definition pow2 :: "int \<Rightarrow> real" where
  "pow2 e = (if 0 \<le> e then 2 ^ nat e else 1 / 2 ^ nat (- e))"

text \<open>For \<open>0 < a\<close>, the integer \<open>l\<close> with \<open>2^l \<le> a < 2^(l+1)\<close>.\<close>

definition floor_log2 :: "real \<Rightarrow> int" where
  "floor_log2 a =
     (if 1 \<le> a then int (bit_length (nat \<lfloor>a\<rfloor>)) - 1
      else (let c = int (bit_length (nat \<lfloor>1 / a\<rfloor>))
            in if a * pow2 (c - 1) = 1 then - (c - 1) else - c))"

definition round_nearest_even :: "real \<Rightarrow> int" where
  "round_nearest_even y =
     (let f = \<lfloor>y\<rfloor>; r = y - of_int f
      in if r < 1 / 2 then f
         else if 1 / 2 < r then f + 1
         else if even f then f else f + 1)"

definition round32 :: "real \<Rightarrow> real" where
  "round32 x =
     (if x = 0 then 0
      else let e = max (floor_log2 \<bar>x\<bar> - 23) (- 149)
           in sgn x * of_int (round_nearest_even (\<bar>x\<bar> / pow2 e)) * pow2 e)"

definition f_add :: "real \<Rightarrow> real \<Rightarrow> real" where
  "f_add a b = round32 (a + b)"

definition f_sub :: "real \<Rightarrow> real \<Rightarrow> real" where
  "f_sub a b = round32 (a - b)"

definition f_mul :: "real \<Rightarrow> real \<Rightarrow> real" where
  "f_mul a b = round32 (a * b)"

definition f_div :: "real \<Rightarrow> real \<Rightarrow> real" where
  "f_div a b = round32 (a / b)"

text \<open>
  The operations on matrices follow OpenCV's \<^verbatim>\<open>Matx\<close>: an entry of a product is
  accumulated from 0 in the order of the index, \<^verbatim>\<open>s += a(i, k) * b(k, j)\<close>; the inverse of
  a 3x3 matrix is the matrix of cofactors, each times \<^verbatim>\<open>1 / d\<close> for the determinant \<open>d\<close>,
  and the zero matrix when \<open>d\<close> is 0. A rotation is given by the matrix of its
  \<^verbatim>\<open>double\<close> entries, which the conversion to \<^verbatim>\<open>cv::Matx33f\<close> rounds.
\<close>

definition f_dot3 :: "real Vec3f \<Rightarrow> real Vec3f \<Rightarrow> real" where
  "f_dot3 a b =
     f_add (f_add (f_add 0 (f_mul (vec0 a) (vec0 b))) (f_mul (vec1 a) (vec1 b)))
           (f_mul (vec2 a) (vec2 b))"

definition binary32_matx_vec :: "real Matx33f \<Rightarrow> real Vec3f \<Rightarrow> real Vec3f" where
  "binary32_matx_vec m v = (f_dot3 (fst m) v, f_dot3 (fst (snd m)) v, f_dot3 (snd (snd m)) v)"

definition binary32_matx_mul :: "real Matx33f \<Rightarrow> real Matx33f \<Rightarrow> real Matx33f" where
  "binary32_matx_mul a b =
     (let row = (\<lambda>r. (f_dot3 r (column vec0 b), f_dot3 r (column vec1 b),
                        f_dot3 r (column vec2 b)))
      in (row (fst a), row (fst (snd a)), row (snd (snd a))))"

fun f_determinant :: "real Matx33f \<Rightarrow> real" where
  "f_determinant ((a, b, c), (d, e, f), (g, h, i)) =
     f_add (f_sub (f_mul a (f_sub (f_mul e i) (f_mul h f)))
                  (f_mul b (f_sub (f_mul d i) (f_mul g f))))
           (f_mul c (f_sub (f_mul d h) (f_mul g e)))"

fun binary32_matx_inv :: "real Matx33f \<Rightarrow> real Matx33f" where
  "binary32_matx_inv ((a, b, c), (d, e, f), (g, h, i)) =
     (let det = f_determinant ((a, b, c), (d, e, f), (g, h, i))
      in if det = 0 then zeros33
         else let t = f_div 1 det
              in ((f_mul (f_sub (f_mul e i) (f_mul f h)) t,
                   f_mul (f_sub (f_mul c h) (f_mul b i)) t,
                   f_mul (f_sub (f_mul b f) (f_mul c e)) t),
                  (f_mul (f_sub (f_mul f g) (f_mul d i)) t,
                   f_mul (f_sub (f_mul a i) (f_mul c g)) t,
                   f_mul (f_sub (f_mul c d) (f_mul a f)) t),
                  (f_mul (f_sub (f_mul d h) (f_mul e g)) t,
                   f_mul (f_sub (f_mul b g) (f_mul a h)) t,
                   f_mul (f_sub (f_mul a e) (f_mul b d)) t)))"

fun round32_matx :: "real Matx33f \<Rightarrow> real Matx33f" where
  "round32_matx ((a, b, c), (d, e, f), (g, h, i)) =
     ((round32 a, round32 b, round32 c), (round32 d, round32 e, round32 f),
      (round32 g, round32 h, round32 i))"

definition binary32_arith :: "(real, real Matx33f) arith" where
  "binary32_arith =
     \<lparr>zero = 0, one = 1, divide_f = f_div, greater_f = (\<lambda>a b. b < a),
      matx_mul = binary32_matx_mul, matx_vec = binary32_matx_vec,
      matx_inv = binary32_matx_inv, rot_matrix = round32_matx, rot_default = identity33\<rparr>"

text \<open>
  An intrinsic matrix of single-precision entries: the numbers nearest to the focal
  lengths 458.654 and 457.296 and to the principal point (367.215, 248.375).
\<close>

definition K_euroc :: "real Matx33f" where
  "K_euroc =
     ((7514587 / 16384, 0, 12032901 / 32768),
      (0, 14984675 / 32768, 1987 / 8),
      (0, 0, 1))"

section \<open>Tracker: removal of outliers\<close>

text \<open>
  Modelled from the spec: \<^verbatim>\<open>Tracker::removeOutliersMono\<close> and \<^verbatim>\<open>Tracker::findOutliers\<close> are
  only declared in \<^verbatim>\<open>Tracker.h\<close>, and \<^verbatim>\<open>Frame\<close> and \<^verbatim>\<open>DebugTrackerInfo\<close> are declared in
  headers that are not in the sources at hand. A frame is "an ordered sequence of 2D
  keypoints with per-keypoint landmark identifiers (-1 = unassigned) and an age/tracking
  counter".
\<close>

record 'a Frame =
  keypoints :: "'a KeypointsCV"
  landmarks :: "int list"
  landmarks_age :: "nat list"

text \<open>
  Modelled from the spec: of the debug information, "a plain aggregate of counts/timings
  from the last tracking call", the iteration count that \<^verbatim>\<open>removeOutliersMono\<close> records.
\<close>

record DebugTrackerInfo =
  mono_ransac_iters :: int

text \<open>
  The state that \<^verbatim>\<open>removeOutliersMono\<close> can change: the two frames behind its pointers
  (two distinct objects) and the tracker's debug information.
\<close>

record 'a tracking_state =
  ref_frame :: "'a Frame"
  cur_frame :: "'a Frame"
  debug_info :: DebugTrackerInfo

text \<open>
  Modelled from the spec: \<^verbatim>\<open>findOutliers\<close> is the "complement of an inlier index set against
  the full match list", "order-preserving w.r.t. the input match list".
\<close>

definition findOutliers :: "(nat \<times> nat) list \<Rightarrow> int list \<Rightarrow> int list" where
  "findOutliers matches_ref_cur inliers =
     filter (\<lambda>i. i \<notin> set inliers) (map int [0..<length matches_ref_cur])"

text \<open>
  Unassigning the landmark identifier of keypoint \<open>k\<close> of a frame. The spec does not say
  what happens for a match that names a keypoint the frame does not have; here the frame
  is left as it is.
\<close>

definition unassign :: "nat \<Rightarrow> 'a Frame \<Rightarrow> 'a Frame" where
  "unassign k f = f\<lparr>landmarks := (landmarks f)[k := - 1]\<rparr>"

text \<open>
  Modelled from the spec: \<^verbatim>\<open>removeOutliersMono\<close>, "given the match list and the RANSAC
  inlier index set, invalidate (unassign landmark id on) every matched keypoint not in the
  inlier set, in both frames symmetrically; also records the iteration count used for
  diagnostics".
\<close>

definition removeOutliersMono ::
  "(nat \<times> nat) list \<Rightarrow> int list \<Rightarrow> int \<Rightarrow> 'a tracking_state \<Rightarrow> 'a tracking_state" where
  "removeOutliersMono matches_ref_cur inliers iterations s =
     (let outliers = findOutliers matches_ref_cur inliers
      in \<lparr>ref_frame = fold (\<lambda>i. unassign (fst (matches_ref_cur ! nat i))) outliers (ref_frame s),
          cur_frame = fold (\<lambda>i. unassign (snd (matches_ref_cur ! nat i))) outliers (cur_frame s),
          debug_info = (debug_info s)\<lparr>mono_ransac_iters := iterations\<rparr>\<rparr>)"

section \<open>Properties of the loop-closure candidate model\<close>

subsection \<open>LoopResult\<close>

text \<open>
  C6. For every \<^verbatim>\<open>LoopResult\<close>, \<^verbatim>\<open>isLoop()\<close> is true if and only if the status is
  \<^verbatim>\<open>LOOP_DETECTED\<close>; for each of the seven other values of \<^verbatim>\<open>LCDStatus\<close> it is false.
\<close>

theorem isLoop_iff_LOOP_DETECTED:
  "isLoop r = (status r = LOOP_DETECTED)
   \<and> isLoop (r\<lparr>status := LOOP_DETECTED\<rparr>)
   \<and> \<not> isLoop (r\<lparr>status := NO_MATCHES\<rparr>)
   \<and> \<not> isLoop (r\<lparr>status := LOW_NSS_FACTOR\<rparr>)
   \<and> \<not> isLoop (r\<lparr>status := LOW_SCORE\<rparr>)
   \<and> \<not> isLoop (r\<lparr>status := NO_GROUPS\<rparr>)
   \<and> \<not> isLoop (r\<lparr>status := FAILED_TEMPORAL_CONSTRAINT\<rparr>)
   \<and> \<not> isLoop (r\<lparr>status := FAILED_GEOM_VERIFICATION\<rparr>)
   \<and> \<not> isLoop (r\<lparr>status := FAILED_POSE_RECOVERY\<rparr>)"
  by (simp add: isLoop_def)

subsection \<open>MatchIsland: range and size\<close>

lemma uint_succ: "(x::'w::len word) \<noteq> - 1 \<Longrightarrow> uint (x + 1) = uint x + 1"
proof -
  assume "x \<noteq> - 1"
  then have "x \<le> x + 1"
    by (metis inc_less_eq_self_iff_eq linear)
  then have "uint (x + 1) = uint x + uint (1::'w word)"
    by (rule uint_plus_simple)
  then show ?thesis by simp
qed

lemma uint_range_size:
  "uint ((e::'w::len word) - s + 1) = (uint e - uint s + 1) mod 2 ^ LENGTH('w)"
  by (simp add: mod_add_left_eq uint_word_ariths(1,2))

text \<open>
  C4, as the spec states it, fails: the constructors store \<open>start\<close> and \<open>end\<close> as they are
  given, so \<^verbatim>\<open>MatchIsland(5, 3)\<close> is an island whose \<^verbatim>\<open>start_id_\<close> is above its \<^verbatim>\<open>end_id_\<close>.
  Its \<^verbatim>\<open>size()\<close> is \<open>3 - 5 + 1\<close> wrapped around, \<open>2^64 - 1\<close> for identifiers of 64 bits,
  where the integers give \<open>-1\<close>.
\<close>

theorem MatchIsland_invariant_counterexample:
  "reachable (MatchIsland_range 5 (3 :: 64 word))
   \<and> \<not> start_id (MatchIsland_range 5 (3 :: 64 word)) \<le> end_id (MatchIsland_range 5 (3 :: 64 word))
   \<and> size_island (MatchIsland_range 5 (3 :: 64 word)) = 18446744073709551615
   \<and> uint (end_id (MatchIsland_range 5 (3 :: 64 word)))
        - uint (start_id (MatchIsland_range 5 (3 :: 64 word))) + 1 = - 1"
proof -
  have "reachable (MatchIsland_range 5 (3 :: 64 word))"
    by (rule by_range)
  moreover have "size_island (MatchIsland_range 5 (3 :: 64 word)) = 18446744073709551615"
    by (simp add: MatchIsland_range_def size_island_def)
  ultimately show ?thesis
    by (simp add: MatchIsland_range_def)
qed

text \<open>
  C4, amended. The default constructor and \<^verbatim>\<open>clear()\<close> give \<open>start_id = end_id = 0\<close> and
  a size of 1. The other two constructors store the \<open>start\<close> and the \<open>end\<close> they are given,
  unchecked. For every island, \<^verbatim>\<open>size()\<close> is \<open>end_id - start_id + 1\<close> modulo \<open>2^w\<close>, the
  number of values of an identifier; it is the integer \<open>end_id - start_id + 1\<close> whenever
  \<open>start_id \<le> end_id\<close> and the range is not the whole space of identifiers.
\<close>

theorem MatchIsland_size:
  fixes m :: "('w::len) MatchIsland"
  shows "uint (size_island m) = (uint (end_id m) - uint (start_id m) + 1) mod 2 ^ LENGTH('w)
    \<and> (start_id m \<le> end_id m \<and> end_id m - start_id m \<noteq> - 1 \<longrightarrow>
         uint (size_island m) = uint (end_id m) - uint (start_id m) + 1)
    \<and> start_id (MatchIsland_default :: 'w MatchIsland) = 0
    \<and> end_id (MatchIsland_default :: 'w MatchIsland) = 0
    \<and> size_island (MatchIsland_default :: 'w MatchIsland) = 1
    \<and> start_id (clear m) = 0 \<and> end_id (clear m) = 0 \<and> size_island (clear m) = 1
    \<and> start_id (MatchIsland_range s e :: 'w MatchIsland) = s
    \<and> end_id (MatchIsland_range s e :: 'w MatchIsland) = e
    \<and> start_id (MatchIsland_scored s e score :: 'w MatchIsland) = s
    \<and> end_id (MatchIsland_scored s e score :: 'w MatchIsland) = e"
proof -
  have wrap: "uint (size_island m) = (uint (end_id m) - uint (start_id m) + 1) mod 2 ^ LENGTH('w)"
    by (simp add: size_island_def uint_range_size)
  have exact: "uint (size_island m) = uint (end_id m) - uint (start_id m) + 1"
    if "start_id m \<le> end_id m" and "end_id m - start_id m \<noteq> - 1"
  proof -
    have "uint (end_id m - start_id m) = uint (end_id m) - uint (start_id m)"
      using that(1) by (simp add: uint_minus_simple_alt)
    with uint_succ [OF that(2)] show ?thesis
      by (simp add: size_island_def)
  qed
  show ?thesis
    using wrap exact
    by (simp add: size_island_def MatchIsland_default_def clear_def
        MatchIsland_range_def MatchIsland_scored_def)
qed

theorem MatchIsland_size_witness:
  "start_id (MatchIsland_range 3 (7 :: 64 word)) \<le> end_id (MatchIsland_range 3 (7 :: 64 word))
   \<and> end_id (MatchIsland_range 3 (7 :: 64 word))
        - start_id (MatchIsland_range 3 (7 :: 64 word)) \<noteq> - 1
   \<and> uint (size_island (MatchIsland_range 3 (7 :: 64 word))) = 5"
proof -
  have h: "start_id (MatchIsland_range 3 (7 :: 64 word)) \<le> end_id (MatchIsland_range 3 (7 :: 64 word))
     \<and> end_id (MatchIsland_range 3 (7 :: 64 word))
          - start_id (MatchIsland_range 3 (7 :: 64 word)) \<noteq> - 1"
    by (simp add: MatchIsland_range_def)
  with MatchIsland_size [of "MatchIsland_range 3 (7 :: 64 word)"]
  have "uint (size_island (MatchIsland_range 3 (7 :: 64 word)))
          = uint (end_id (MatchIsland_range 3 (7 :: 64 word)))
              - uint (start_id (MatchIsland_range 3 (7 :: 64 word))) + 1"
    by blast
  with h show ?thesis
    by (simp add: MatchIsland_range_def)
qed

subsection \<open>MatchIsland: ordering by score\<close>

lemma double_less_irrefl: "\<not> double_less a a"
  by (cases a) simp_all

lemma double_less_asym: "double_less a b \<Longrightarrow> \<not> double_less b a"
  by (cases a; cases b) simp_all

lemma double_less_trans: "double_less a b \<Longrightarrow> double_less b c \<Longrightarrow> double_less a c"
  by (cases a; cases b; cases c) simp_all

lemma double_equiv_trans:
  "b \<noteq> NaN \<Longrightarrow> \<not> double_less a b \<Longrightarrow> \<not> double_less b a \<Longrightarrow>
   \<not> double_less b c \<Longrightarrow> \<not> double_less c b \<Longrightarrow>
   \<not> double_less a c \<and> \<not> double_less c a"
  by (cases a; cases b; cases c) simp_all

lemma double_less_NaN: "\<not> double_less NaN b \<and> \<not> double_less b NaN"
  by (cases b) simp_all

lemma double_less_total:
  "a \<noteq> NaN \<Longrightarrow> b \<noteq> NaN \<Longrightarrow> double_less a b \<or> double_less b a \<or> a = b"
  by (cases a; cases b) auto

text \<open>
  C5, as the spec states it, fails: a strict weak order needs the equivalence "neither is
  less than the other" to be transitive, and an island whose score is a NaN is equivalent
  to every island. With scores 1, NaN and 2 the first island is equivalent to the second
  and the second to the third, and yet the first is less than the third: such islands are
  not totally ordered by their score.
\<close>

theorem island_order_counterexample:
  "island_equiv (MatchIsland_scored 0 0 (Finite 1) :: 64 MatchIsland) (MatchIsland_scored 0 0 NaN)
   \<and> island_equiv (MatchIsland_scored 0 0 NaN :: 64 MatchIsland) (MatchIsland_scored 0 0 (Finite 2))
   \<and> \<not> island_equiv (MatchIsland_scored 0 0 (Finite 1) :: 64 MatchIsland)
          (MatchIsland_scored 0 0 (Finite 2))"
  by (simp add: island_equiv_def island_less_def MatchIsland_scored_def)

text \<open>
  C5, amended. \<^verbatim>\<open>operator<\<close> and \<^verbatim>\<open>operator>\<close> compare the scores only (two finite scores
  as the numbers they are), and \<open>a < b\<close> holds exactly when \<open>b > a\<close>. On all islands
  \<^verbatim>\<open>operator<\<close> is irreflexive, asymmetric and transitive. Its equivalence is transitive
  through every island whose score is not a NaN, so that it is a strict weak order on the
  islands whose scores are not NaN; it orders these islands totally up to equal scores: of
  two of them one is less than the other or their scores are equal, and they are
  equivalent exactly when their scores are equal. An island whose score is a NaN is
  equivalent to every island.
\<close>

theorem island_order:
  fixes a b c :: "('w::len) MatchIsland"
  shows "island_less a b = double_less (island_score a) (island_score b)
   \<and> island_greater a b = double_less (island_score b) (island_score a)
   \<and> island_less (MatchIsland_scored s1 e1 (Finite x) :: 'w MatchIsland)
        (MatchIsland_scored s2 e2 (Finite y)) = (x < y)
   \<and> island_less a b = island_greater b a
   \<and> \<not> island_less a a
   \<and> (island_less a b \<longrightarrow> \<not> island_less b a)
   \<and> (island_less a b \<and> island_less b c \<longrightarrow> island_less a c)
   \<and> (island_score b \<noteq> NaN \<and> island_equiv a b \<and> island_equiv b c \<longrightarrow> island_equiv a c)
   \<and> (island_score a \<noteq> NaN \<and> island_score b \<noteq> NaN \<longrightarrow>
        island_less a b \<or> island_less b a \<or> island_score a = island_score b)
   \<and> (island_score a \<noteq> NaN \<and> island_score b \<noteq> NaN \<longrightarrow>
        island_equiv a b = (island_score a = island_score b))
   \<and> (island_score a = NaN \<longrightarrow> island_equiv a b \<and> island_equiv b a)"
proof -
  have scores: "island_less a b = double_less (island_score a) (island_score b)
     \<and> island_greater a b = double_less (island_score b) (island_score a)
     \<and> island_less (MatchIsland_scored s1 e1 (Finite x) :: 'w MatchIsland)
          (MatchIsland_scored s2 e2 (Finite y)) = (x < y)
     \<and> island_less a b = island_greater b a"
    by (simp add: island_less_def island_greater_def double_greater_def MatchIsland_scored_def)
  have order: "\<not> island_less a a
     \<and> (island_less a b \<longrightarrow> \<not> island_less b a)
     \<and> (island_less a b \<and> island_less b c \<longrightarrow> island_less a c)
     \<and> (island_score b \<noteq> NaN \<and> island_equiv a b \<and> island_equiv b c \<longrightarrow> island_equiv a c)"
    unfolding island_less_def island_equiv_def
    using double_less_irrefl double_less_asym double_less_trans double_equiv_trans
    by blast
  have total: "island_less a b \<or> island_less b a \<or> island_score a = island_score b"
    if "island_score a \<noteq> NaN" and "island_score b \<noteq> NaN"
    unfolding island_less_def using that by (rule double_less_total)
  have equal: "island_equiv a b = (island_score a = island_score b)"
    if "island_score a \<noteq> NaN" and "island_score b \<noteq> NaN"
    using total [OF that] double_less_irrefl [of "island_score b"]
      double_less_asym [of "island_score a" "island_score b"]
    unfolding island_equiv_def island_less_def by auto
  have nan: "island_equiv a b \<and> island_equiv b a" if "island_score a = NaN"
    unfolding island_equiv_def island_less_def using that double_less_NaN by simp
  from scores order total equal nan show ?thesis
    by blast
qed

theorem island_order_witness:
  "island_less (MatchIsland_scored 0 0 (Finite 1) :: 64 MatchIsland) (MatchIsland_scored 4 9 (Finite 2))
   \<and> island_less (MatchIsland_scored 4 9 (Finite 2) :: 64 MatchIsland) (MatchIsland_scored 2 3 PlusInfinity)
   \<and> island_less (MatchIsland_scored 0 0 (Finite 1) :: 64 MatchIsland) (MatchIsland_scored 2 3 PlusInfinity)
   \<and> \<not> island_less (MatchIsland_scored 4 9 (Finite 2) :: 64 MatchIsland) (MatchIsland_scored 0 0 (Finite 1))
   \<and> island_score (MatchIsland_scored 4 9 (Finite 2) :: 64 MatchIsland) \<noteq> NaN
   \<and> island_score (MatchIsland_scored 5 5 (Finite 2) :: 64 MatchIsland) \<noteq> NaN
   \<and> island_equiv (MatchIsland_scored 4 9 (Finite 2) :: 64 MatchIsland) (MatchIsland_scored 5 5 (Finite 2))
   \<and> island_equiv (MatchIsland_scored 5 5 (Finite 2) :: 64 MatchIsland) (MatchIsland_scored 7 8 (Finite 2))
   \<and> island_equiv (MatchIsland_scored 4 9 (Finite 2) :: 64 MatchIsland) (MatchIsland_scored 7 8 (Finite 2))
   \<and> island_score (MatchIsland_scored 4 9 (Finite 2) :: 64 MatchIsland)
        = island_score (MatchIsland_scored 5 5 (Finite 2) :: 64 MatchIsland)
   \<and> island_score (MatchIsland_scored 1 2 NaN :: 64 MatchIsland) = NaN
   \<and> island_equiv (MatchIsland_scored 1 2 NaN :: 64 MatchIsland) (MatchIsland_scored 4 9 (Finite 2))
   \<and> island_equiv (MatchIsland_scored 4 9 (Finite 2) :: 64 MatchIsland) (MatchIsland_scored 1 2 NaN)"
proof -
  let ?a = "MatchIsland_scored 0 0 (Finite 1) :: 64 MatchIsland"
  let ?b = "MatchIsland_scored 4 9 (Finite 2) :: 64 MatchIsland"
  let ?c = "MatchIsland_scored 2 3 PlusInfinity :: 64 MatchIsland"
  let ?d = "MatchIsland_scored 5 5 (Finite 2) :: 64 MatchIsland"
  let ?e = "MatchIsland_scored 7 8 (Finite 2) :: 64 MatchIsland"
  let ?n = "MatchIsland_scored 1 2 NaN :: 64 MatchIsland"
  have less: "island_less ?a ?b \<and> island_less ?b ?c"
    by (simp add: island_less_def MatchIsland_scored_def)
  have equiv: "island_score ?d \<noteq> NaN \<and> island_equiv ?b ?d \<and> island_equiv ?d ?e"
    by (simp add: island_equiv_def island_less_def MatchIsland_scored_def)
  have finite: "island_score ?b \<noteq> NaN \<and> island_score ?d \<noteq> NaN"
    by (simp add: MatchIsland_scored_def)
  have nan: "island_score ?n = NaN"
    by (simp add: MatchIsland_scored_def)
  from less island_order [where a = ?a and b = ?b and c = ?c]
  have "island_less ?a ?c \<and> \<not> island_less ?b ?a"
    by blast
  moreover from equiv island_order [where a = ?b and b = ?d and c = ?e]
  have "island_equiv ?b ?e"
    by blast
  moreover from finite equiv island_order [where a = ?b and b = ?d]
  have "island_score ?b = island_score ?d"
    by blast
  moreover from nan island_order [where a = ?n and b = ?b]
  have "island_equiv ?n ?b \<and> island_equiv ?b ?n"
    by blast
  ultimately show ?thesis
    using less equiv finite nan by blast
qed

section \<open>Properties of the optical-flow predictors\<close>

declare predictFlow_loop.simps [simp del]

subsection \<open>The loop of the rotational predictor\<close>

text \<open>
  Started at index \<open>i\<close> on an output vector as long as the input, the loop keeps the
  first \<open>i\<close> entries of the output and writes the prediction of every later keypoint at
  that keypoint's index; no access is out of range.
\<close>

lemma predictFlow_loop_map:
  assumes "i \<le> length prev_kps" and "length next_kps = length prev_kps"
  shows "predictFlow_loop ar H prev_kps (length prev_kps) i next_kps =
     Inr (take i next_kps @
          map (\<lambda>p. let p2 = matx_vec ar H (pt_x p, pt_y p, one ar)
                    in if greater_f ar (vec2 p2) (zero ar)
                       then Point2f (divide_f ar (vec0 p2) (vec2 p2))
                                    (divide_f ar (vec1 p2) (vec2 p2))
                       else p)
              (drop i prev_kps))"
  using assms
proof (induction "length prev_kps - i" arbitrary: i next_kps)
  case 0
  then show ?case
    by (subst predictFlow_loop.simps) simp
next
  case (Suc d)
  let ?f = "\<lambda>p. let p2 = matx_vec ar H (pt_x p, pt_y p, one ar)
                 in if greater_f ar (vec2 p2) (zero ar)
                    then Point2f (divide_f ar (vec0 p2) (vec2 p2))
                                 (divide_f ar (vec1 p2) (vec2 p2))
                    else p"
  from Suc have lt: "i < length prev_kps" and len: "length next_kps = length prev_kps"
    by simp_all
  have step: "predictFlow_loop ar H prev_kps (length prev_kps) (Suc i) (next_kps[i := v]) =
     Inr (take i next_kps @ [v] @ map ?f (drop (Suc i) prev_kps))" for v
  proof -
    have "d = length prev_kps - Suc i"
      using Suc.hyps(2) by simp
    moreover have "Suc i \<le> length prev_kps"
      using lt by simp
    moreover have "length (next_kps[i := v]) = length prev_kps"
      using len by simp
    ultimately have "predictFlow_loop ar H prev_kps (length prev_kps) (Suc i) (next_kps[i := v]) =
      Inr (take (Suc i) (next_kps[i := v]) @ map ?f (drop (Suc i) prev_kps))"
      by (rule Suc.hyps(1))
    moreover have "take (Suc i) (next_kps[i := v]) = take i next_kps @ [v]"
      using lt len by (simp add: take_Suc_conv_app_nth)
    ultimately show ?thesis
      by simp
  qed
  have drop: "drop i prev_kps = prev_kps ! i # drop (Suc i) prev_kps"
    using lt by (simp add: Cons_nth_drop_Suc)
  show ?case
    using lt len
    by (subst predictFlow_loop.simps) (simp add: step drop Let_def)
qed

lemma Rotational_predictFlow_map:
  "Rotational_predictFlow ar p prev_kps (Some old) =
     Inr (True,
          map (\<lambda>kp. let p2 = matx_vec ar
                              (matx_mul ar (matx_mul ar (K p) (rot_matrix ar (inter_frame_rotation p)))
                                 (K_inverse p))
                              (pt_x kp, pt_y kp, one ar)
                     in if greater_f ar (vec2 p2) (zero ar)
                        then Point2f (divide_f ar (vec0 p2) (vec2 p2))
                                     (divide_f ar (vec1 p2) (vec2 p2))
                        else kp)
              prev_kps)"
  by (simp add: Rotational_predictFlow_def Let_def predictFlow_loop_map)

subsection \<open>What the predictors compute\<close>

text \<open>
  C1. For every list of previous keypoints, \<^verbatim>\<open>RotationalOpticalFlowPredictor::predictFlow\<close>
  forms \<open>H = K R K_inverse\<close> from the intrinsic matrix, the inverse computed once by the
  constructor (neither of which an update of the rotation changes) and the rotation set
  last; it lifts each previous keypoint to \<open>(x, y, 1)\<close> and applies \<open>H\<close>; when the third
  component of the result is above zero the output is the perspective division
  \<open>(p2[0] / p2[2], p2[1] / p2[2])\<close>, and otherwise (so also when it is not positive) the
  output is the previous keypoint; the call does not fail.
\<close>

theorem Rotational_predictFlow_homography:
  "Rotational_predictFlow ar p prev_kps (Some old) =
     Inr (True,
          map (\<lambda>kp. let R = rot_matrix ar (inter_frame_rotation p);
                         H = matx_mul ar (matx_mul ar (K p) R) (K_inverse p);
                         p2 = matx_vec ar H (pt_x kp, pt_y kp, one ar)
                     in if greater_f ar (vec2 p2) (zero ar)
                        then Point2f (divide_f ar (vec0 p2) (vec2 p2))
                                     (divide_f ar (vec1 p2) (vec2 p2))
                        else kp)
              prev_kps)
   \<and> K (Rotational_new ar k) = k
   \<and> K_inverse (Rotational_new ar k) = matx_inv ar k
   \<and> K (fst (updateInterFrameRotation p r)) = K p
   \<and> K_inverse (fst (updateInterFrameRotation p r)) = K_inverse p
   \<and> inter_frame_rotation (fst (updateInterFrameRotation p r)) = r"
  by (simp add: Rotational_predictFlow_map Let_def Rotational_new_def updateInterFrameRotation_def)

text \<open>
  An instance without rounding: \<open>K\<close> has focal length 2 and principal point \<open>(1, 1)\<close>, the
  rotation is a quarter turn about the vertical axis. The keypoint \<open>(0, 1)\<close> is sent to
  depth \<open>1/2\<close> and predicted at \<open>(5, 1)\<close>; the keypoint \<open>(3, 1)\<close> is sent to depth \<open>-1\<close>
  and stays where it was.
\<close>

theorem Rotational_predictFlow_homography_witness:
  "Rotational_predictFlow exact_arith
     (fst (updateInterFrameRotation
            (Rotational_new exact_arith ((2, 0, 1), (0, 2, 1), (0, 0, 1)))
            ((0, 0, 1), (0, 1, 0), (- 1, 0, 0))))
     [Point2f 0 1, Point2f 3 1] (Some []) =
   Inr (True, [Point2f 5 1, Point2f 3 1])"
  using Rotational_predictFlow_homography [of exact_arith
     "fst (updateInterFrameRotation
            (Rotational_new exact_arith ((2, 0, 1), (0, 2, 1), (0, 0, 1)))
            ((0, 0, 1), (0, 1, 0), (- 1, 0, 0)))"
     "[Point2f 0 1, Point2f 3 1]" "[]"]
  by (simp add: exact_arith_def Rotational_new_def updateInterFrameRotation_def
      exact_matx_mul_def exact_matx_vec_def dot3_def column_def vec0_def vec1_def vec2_def
      zeros33_def Let_def)

text \<open>
  C2. For every list of previous keypoints, \<^verbatim>\<open>SillyOpticalFlowPredictor::predictFlow\<close> leaves
  the output vector equal to the input, in the same order, whatever it held before, and
  returns true.
\<close>

theorem Silly_predictFlow_identity:
  "Silly_predictFlow prev_kps (Some old) = Inr (True, prev_kps)"
  by (simp add: Silly_predictFlow_def)

text \<open>
  C7. The claim is that after any sequence of calls of \<^verbatim>\<open>updateInterFrameRotation\<close> the next
  \<^verbatim>\<open>predictFlow\<close> uses the argument of the last of them. The body does assign its argument
  to the one rotation the predictor holds, but every call then ends without a value to
  return, which is undefined: after a sequence of one call or more nothing is defined, and
  a \<^verbatim>\<open>predictFlow\<close> that follows has no rotation that it is known to read. Only the empty
  sequence leaves a defined state, the one it started from.
\<close>

theorem updateInterFrameRotation_sequence_undefined:
  "update_all p (r # rs) = Inl MissingReturn
   \<and> predictFlow_after_updates ar p (r # rs) prev_kps next_kps = Inl MissingReturn
   \<and> update_all p [] = Inr p
   \<and> predictFlow_after_updates ar p [] prev_kps next_kps =
       Rotational_predictFlow ar p prev_kps next_kps"
  by (simp add: predictFlow_after_updates_def updateInterFrameRotation_def)

text \<open>
  C9. For every list of previous keypoints, the empty one too, and a pointer that is not
  null, \<^verbatim>\<open>RotationalOpticalFlowPredictor::predictFlow\<close> returns true, without a failure; the
  output has the length of the input, and its entry at each index is the prediction for
  the input keypoint at that index: the perspective division of \<open>H (x, y, 1)\<close> when the
  depth is above zero, the keypoint itself otherwise.
\<close>

theorem Rotational_predictFlow_returns_true:
  "(\<exists>out. Rotational_predictFlow ar p prev_kps (Some old) = Inr (True, out)
      \<and> length out = length prev_kps
      \<and> (\<forall>i<length prev_kps.
           out ! i =
             (let R = rot_matrix ar (inter_frame_rotation p);
                  H = matx_mul ar (matx_mul ar (K p) R) (K_inverse p);
                  p2 = matx_vec ar H (pt_x (prev_kps ! i), pt_y (prev_kps ! i), one ar)
              in if greater_f ar (vec2 p2) (zero ar)
                 then Point2f (divide_f ar (vec0 p2) (vec2 p2))
                              (divide_f ar (vec1 p2) (vec2 p2))
                 else prev_kps ! i)))
   \<and> Rotational_predictFlow ar p [] (Some old) = Inr (True, [])"
  by (simp add: Rotational_predictFlow_map Let_def)

text \<open>
  An instance without rounding, with a quarter turn about the vertical axis as the
  rotation held: the output for the keypoints \<open>(0, 1)\<close> and \<open>(3, 1)\<close> has two entries, the
  first moved to \<open>(5, 1)\<close>, the second kept.
\<close>

theorem Rotational_predictFlow_returns_true_witness:
  "\<exists>out. Rotational_predictFlow exact_arith
            \<lparr>K = ((2, 0, 1), (0, 2, 1), (0, 0, 1)),
             K_inverse = exact_matx_inv ((2, 0, 1), (0, 2, 1), (0, 0, 1)),
             inter_frame_rotation = ((0, 0, 1), (0, 1, 0), (- 1, 0, 0))\<rparr>
            [Point2f 0 1, Point2f 3 1] (Some [Point2f 9 9]) = Inr (True, out)
     \<and> length out = 2
     \<and> (0::nat) < length [Point2f 0 1, Point2f 3 (1::real)]
     \<and> (1::nat) < length [Point2f 0 1, Point2f 3 (1::real)]
     \<and> out ! 0 = Point2f 5 1
     \<and> out ! 1 = Point2f 3 1"
proof -
  let ?p = "\<lparr>K = ((2, 0, 1), (0, 2, 1), (0, 0, 1)),
             K_inverse = exact_matx_inv ((2, 0, 1), (0, 2, 1), (0, 0, 1)),
             inter_frame_rotation = ((0, 0, 1), (0, 1, 0), (- 1, 0, 0))\<rparr>
            :: (real, real Matx33f) RotationalOpticalFlowPredictor"
  let ?kps = "[Point2f 0 1, Point2f 3 (1::real)]"
  let ?f = "\<lambda>kp. let R = rot_matrix exact_arith (inter_frame_rotation ?p);
                     H = matx_mul exact_arith (matx_mul exact_arith (K ?p) R) (K_inverse ?p);
                     p2 = matx_vec exact_arith H (pt_x kp, pt_y kp, one exact_arith)
                 in if greater_f exact_arith (vec2 p2) (zero exact_arith)
                    then Point2f (divide_f exact_arith (vec0 p2) (vec2 p2))
                                 (divide_f exact_arith (vec1 p2) (vec2 p2))
                    else kp"
  have h0: "(0::nat) < length ?kps" and h1: "(1::nat) < length ?kps"
    by simp_all
  from Rotational_predictFlow_returns_true [of exact_arith ?p ?kps "[Point2f 9 9]"]
  obtain out where
    out: "Rotational_predictFlow exact_arith ?p ?kps (Some [Point2f 9 9]) = Inr (True, out)"
      "length out = length ?kps"
      "\<forall>i<length ?kps. out ! i = ?f (?kps ! i)"
    by blast
  from out(3) h0 have "out ! 0 = ?f (?kps ! 0)"
    by blast
  then have e0: "out ! 0 = Point2f 5 1"
    by (simp add: exact_arith_def exact_matx_mul_def exact_matx_vec_def dot3_def column_def
        vec0_def vec1_def vec2_def zeros33_def Let_def)
  from out(3) h1 have "out ! 1 = ?f (?kps ! 1)"
    by blast
  then have e1: "out ! 1 = Point2f 3 1"
    by (simp add: exact_arith_def exact_matx_mul_def exact_matx_vec_def dot3_def column_def
        vec0_def vec1_def vec2_def zeros33_def Let_def)
  from out(1,2) e0 e1 show ?thesis
    by simp
qed

text \<open>
  C10. The claim is that every call of \<^verbatim>\<open>updateInterFrameRotation\<close> yields a boolean, as
  its return type \<^verbatim>\<open>bool\<close> requires. The body consists of the assignment alone: for every
  rotation the call reaches the end of the function with no value to return.
\<close>

theorem updateInterFrameRotation_returns_nothing:
  "snd (updateInterFrameRotation p rotation) = None"
  by (simp add: updateInterFrameRotation_def)

subsection \<open>The identity rotation in arithmetic without rounding\<close>

text \<open>
  Where nothing is rounded, the product of a matrix and its computed inverse is the
  identity, unless the matrix is singular and the computed inverse is the zero matrix.
\<close>

lemma exact_mul_identity: "exact_matx_mul k identity33 = k"
  by (cases k rule: prod_cases3;
      simp add: exact_matx_mul_def identity33_def dot3_def column_def vec0_def vec1_def vec2_def
        Let_def split: prod.splits)

lemma exact_vec_identity: "exact_matx_vec identity33 v = v"
  by (cases v rule: prod_cases3)
     (simp add: exact_matx_vec_def identity33_def dot3_def vec0_def vec1_def vec2_def)

lemma exact_vec_zeros: "exact_matx_vec (exact_matx_mul k zeros33) v = (0, 0, 0)"
  by (simp add: exact_matx_vec_def exact_matx_mul_def zeros33_def dot3_def column_def
      vec0_def vec1_def vec2_def Let_def)

lemma exact_mul_adjugate:
  fixes a b c d e f g h i t :: real
  shows "exact_matx_mul ((a, b, c), (d, e, f), (g, h, i))
      (((e * i - f * h) * t, (c * h - b * i) * t, (b * f - c * e) * t),
       ((f * g - d * i) * t, (a * i - c * g) * t, (c * d - a * f) * t),
       ((d * h - e * g) * t, (b * g - a * h) * t, (a * e - b * d) * t)) =
     ((determinant ((a, b, c), (d, e, f), (g, h, i)) * t, 0, 0),
      (0, determinant ((a, b, c), (d, e, f), (g, h, i)) * t, 0),
      (0, 0, determinant ((a, b, c), (d, e, f), (g, h, i)) * t))"
  by (simp add: exact_matx_mul_def dot3_def column_def vec0_def vec1_def vec2_def Let_def)
     (intro conjI; algebra)

lemma exact_inverse:
  "exact_matx_inv k = zeros33 \<or> exact_matx_mul k (exact_matx_inv k) = identity33"
proof (cases k rule: exact_matx_inv.cases)
  case (1 a b c d e f g h i)
  show ?thesis
  proof (cases "determinant k = 0")
    case True
    then show ?thesis using 1 by simp
  next
    case False
    then have "exact_matx_mul k (exact_matx_inv k) = identity33"
      using exact_mul_adjugate [of a b c d e f g h i "inverse (determinant k)"]
      unfolding 1 by (simp add: divide_inverse identity33_def Let_def del: determinant.simps)
    then show ?thesis ..
  qed
qed

lemma exact_identity_rotation:
  assumes "inter_frame_rotation p = identity33"
    and "K_inverse p = zeros33 \<or> exact_matx_mul (K p) (K_inverse p) = identity33"
  shows "Rotational_predictFlow exact_arith p prev_kps (Some old) = Inr (True, prev_kps)"
  using assms(2)
proof
  assume "K_inverse p = zeros33"
  then show ?thesis
    using assms(1)
    by (simp add: Rotational_predictFlow_map exact_arith_def exact_vec_zeros vec2_def)
next
  assume "exact_matx_mul (K p) (K_inverse p) = identity33"
  then show ?thesis
    using assms(1)
    by (simp add: Rotational_predictFlow_map exact_arith_def exact_mul_identity
        exact_vec_identity vec0_def vec1_def vec2_def)
qed

subsection \<open>The identity rotation in single precision\<close>

declare bit_length.simps [simp del]

lemmas binary32_eval =
  round32_def floor_log2_def round_nearest_even_def pow2_def bit_length.simps Let_def
  f_add_def f_sub_def f_mul_def f_div_def f_dot3_def vec0_def vec1_def vec2_def column_def

lemma binary32_inverse_K_euroc:
  "binary32_matx_inv K_euroc =
     ((9364287 / 4294967296, 0, - (13432447 / 16777216)),
      (0, 9392095 / 4294967296, - (4556175 / 8388608)),
      (0, 0, 1))"
  by (simp add: K_euroc_def binary32_eval zeros33_def)

lemma binary32_homography_K_euroc:
  "binary32_matx_mul (binary32_matx_mul K_euroc (round32_matx identity33))
     (binary32_matx_inv K_euroc) =
   ((8388609 / 8388608, 0, 0), (0, 1, 0), (0, 0, 1))"
  unfolding binary32_inverse_K_euroc
  by (simp add: K_euroc_def identity33_def binary32_matx_mul_def binary32_eval)

text \<open>
  C3, as the spec states it, fails: in single precision the product of \<open>K\<close> and its
  computed inverse need not be the identity. For the intrinsic matrix \<open>K_euroc\<close> the
  computed inverse has \<open>9364287 / 2^32\<close> as its first entry, the homography for the
  identity rotation, which the constructor sets, has \<open>1 + 2^-23\<close> as its first entry, and
  the keypoint \<open>(100.5, 80)\<close> is predicted at \<open>(100.5 + 2^-16, 80)\<close>, where the static
  predictor keeps \<open>(100.5, 80)\<close>.
\<close>

theorem identity_rotation_counterexample:
  "Rotational_predictFlow binary32_arith (Rotational_new binary32_arith K_euroc)
     [Point2f (201 / 2) 80] (Some []) = Inr (True, [Point2f (6586369 / 65536) 80])
   \<and> Silly_predictFlow [Point2f (201 / 2) 80] (Some []) = Inr (True, [Point2f (201 / 2) 80])
   \<and> inter_frame_rotation (Rotational_new binary32_arith K_euroc) = identity33"
proof -
  have "Rotational_predictFlow binary32_arith (Rotational_new binary32_arith K_euroc)
     [Point2f (201 / 2) 80] (Some []) = Inr (True, [Point2f (6586369 / 65536) 80])"
    by (simp add: Rotational_predictFlow_map binary32_arith_def Rotational_new_def
        binary32_homography_K_euroc binary32_matx_vec_def binary32_eval)
  then show ?thesis
    by (simp add: Silly_predictFlow_def Rotational_new_def binary32_arith_def)
qed

text \<open>
  C3, amended. With the identity rotation the rotational predictor returns the boolean
  that the static predictor returns, true, and an output as long as the static
  predictor's, whatever the arithmetic. Where the arithmetic does not round, the output
  is the static predictor's output, for every intrinsic matrix \<open>K\<close> whose inverse the
  constructor computed: the product of \<open>K\<close> and the inverse is the identity, or \<open>K\<close> is
  singular, the inverse is the zero matrix, every depth is 0 and every keypoint is kept.
\<close>

theorem identity_rotation_without_rounding:
  "(\<exists>out. Rotational_predictFlow ar p prev_kps (Some old) = Inr (True, out)
      \<and> Silly_predictFlow prev_kps (Some old) = Inr (True, prev_kps)
      \<and> length out = length prev_kps)
   \<and> Rotational_predictFlow exact_arith (Rotational_new exact_arith k) prev_kps (Some old) =
       Silly_predictFlow prev_kps (Some old)
   \<and> (inter_frame_rotation q = identity33 \<and> K_inverse q = exact_matx_inv (K q) \<longrightarrow>
        Rotational_predictFlow exact_arith q prev_kps (Some old) =
          Silly_predictFlow prev_kps (Some old))"
proof -
  have general: "\<exists>out. Rotational_predictFlow ar p prev_kps (Some old) = Inr (True, out)
      \<and> Silly_predictFlow prev_kps (Some old) = Inr (True, prev_kps)
      \<and> length out = length prev_kps"
    by (simp add: Rotational_predictFlow_map Silly_predictFlow_def)
  have exact: "Rotational_predictFlow exact_arith q' prev_kps (Some old) =
      Silly_predictFlow prev_kps (Some old)"
    if "inter_frame_rotation q' = identity33" and "K_inverse q' = exact_matx_inv (K q')"
    for q' :: "(real, real Matx33f) RotationalOpticalFlowPredictor"
    using exact_identity_rotation [OF that(1)] exact_inverse [of "K q'"] that(2)
    by (simp add: Silly_predictFlow_def)
  have "Rotational_predictFlow exact_arith (Rotational_new exact_arith k) prev_kps (Some old) =
      Silly_predictFlow prev_kps (Some old)"
    by (rule exact) (simp_all add: Rotational_new_def exact_arith_def)
  with general exact show ?thesis
    by blast
qed

theorem identity_rotation_without_rounding_witness:
  "inter_frame_rotation (Rotational_new exact_arith K_euroc) = identity33
   \<and> K_inverse (Rotational_new exact_arith K_euroc)
       = exact_matx_inv (K (Rotational_new exact_arith K_euroc))
   \<and> Rotational_predictFlow exact_arith (Rotational_new exact_arith K_euroc)
       [Point2f (201 / 2) 80] (Some []) = Inr (True, [Point2f (201 / 2) 80])"
proof -
  have h: "inter_frame_rotation (Rotational_new exact_arith K_euroc) = identity33
     \<and> K_inverse (Rotational_new exact_arith K_euroc)
         = exact_matx_inv (K (Rotational_new exact_arith K_euroc))"
    by (simp add: Rotational_new_def exact_arith_def)
  with identity_rotation_without_rounding
         [where q = "Rotational_new exact_arith K_euroc"
            and prev_kps = "[Point2f (201 / 2) 80]" and old = "[]"]
  have "Rotational_predictFlow exact_arith (Rotational_new exact_arith K_euroc)
       [Point2f (201 / 2) 80] (Some []) = Silly_predictFlow [Point2f (201 / 2) 80] (Some [])"
    by blast
  with h show ?thesis
    by (simp add: Silly_predictFlow_def)
qed

section \<open>Properties of the removal of outliers\<close>

lemma length_fold_update: "length (fold (\<lambda>k l. l[k := v]) ks l) = length l"
  by (induction ks arbitrary: l) simp_all

lemma nth_fold_update:
  "j < length l \<Longrightarrow> fold (\<lambda>k l. l[k := v]) ks l ! j = (if j \<in> set ks then v else l ! j)"
proof (induction ks arbitrary: l)
  case Nil
  then show ?case by simp
next
  case (Cons k ks)
  then show ?case
    by (cases "j = k") simp_all
qed

lemma fold_update_twice:
  "fold (\<lambda>k l. l[k := v]) ks (fold (\<lambda>k l. l[k := v]) ks l) = fold (\<lambda>k l. l[k := v]) ks l"
  by (rule nth_equalityI) (simp_all add: length_fold_update nth_fold_update)

lemma fold_unassign:
  "fold (\<lambda>i. unassign (g i)) js f =
     f\<lparr>landmarks := fold (\<lambda>k l. l[k := - 1]) (map g js) (landmarks f)\<rparr>"
  by (induction js arbitrary: f) (simp_all add: unassign_def)

lemma fold_unassign_twice:
  "fold (\<lambda>i. unassign (g i)) js (fold (\<lambda>i. unassign (g i)) js f) =
     fold (\<lambda>i. unassign (g i)) js f"
  by (simp add: fold_unassign fold_update_twice)

text \<open>
  C8. \<^verbatim>\<open>removeOutliersMono\<close> is idempotent: for every pair of frames, every list of matches,
  every list of inlier indices and every iteration count, the second of two calls with
  the same arguments leaves the two frames, and the recorded iteration count, as the
  first call left them.
\<close>

theorem removeOutliersMono_idempotent:
  "removeOutliersMono matches_ref_cur inliers iterations
     (removeOutliersMono matches_ref_cur inliers iterations s) =
   removeOutliersMono matches_ref_cur inliers iterations s"
  by (simp add: removeOutliersMono_def Let_def fold_unassign_twice)

text \<open>
  An instance: of three matches the second is an outlier; the first call unassigns the
  landmark of keypoint 2 of the reference frame and of keypoint 0 of the current frame and
  records 17 iterations, and the second call changes nothing.
\<close>

theorem removeOutliersMono_idempotent_witness:
  "removeOutliersMono [(0, 1), (2, 0), (1, 2)] [0, 2] 17
     \<lparr>ref_frame = \<lparr>keypoints = [Point2f (1::real) 1, Point2f 2 2, Point2f 3 3],
                    landmarks = [10, 11, 12], landmarks_age = [1, 1, 1]\<rparr>,
      cur_frame = \<lparr>keypoints = [Point2f 1 2, Point2f 2 3, Point2f 3 4],
                    landmarks = [12, 10, 11], landmarks_age = [2, 2, 2]\<rparr>,
      debug_info = \<lparr>mono_ransac_iters = 0\<rparr>\<rparr> =
     \<lparr>ref_frame = \<lparr>keypoints = [Point2f 1 1, Point2f 2 2, Point2f 3 3],
                    landmarks = [10, 11, - 1], landmarks_age = [1, 1, 1]\<rparr>,
      cur_frame = \<lparr>keypoints = [Point2f 1 2, Point2f 2 3, Point2f 3 4],
                    landmarks = [- 1, 10, 11], landmarks_age = [2, 2, 2]\<rparr>,
      debug_info = \<lparr>mono_ransac_iters = 17\<rparr>\<rparr>
   \<and> removeOutliersMono [(0, 1), (2, 0), (1, 2)] [0, 2] 17
     \<lparr>ref_frame = \<lparr>keypoints = [Point2f (1::real) 1, Point2f 2 2, Point2f 3 3],
                    landmarks = [10, 11, - 1], landmarks_age = [1, 1, 1]\<rparr>,
      cur_frame = \<lparr>keypoints = [Point2f 1 2, Point2f 2 3, Point2f 3 4],
                    landmarks = [- 1, 10, 11], landmarks_age = [2, 2, 2]\<rparr>,
      debug_info = \<lparr>mono_ransac_iters = 17\<rparr>\<rparr> =
     \<lparr>ref_frame = \<lparr>keypoints = [Point2f 1 1, Point2f 2 2, Point2f 3 3],
                    landmarks = [10, 11, - 1], landmarks_age = [1, 1, 1]\<rparr>,
      cur_frame = \<lparr>keypoints = [Point2f 1 2, Point2f 2 3, Point2f 3 4],
                    landmarks = [- 1, 10, 11], landmarks_age = [2, 2, 2]\<rparr>,
      debug_info = \<lparr>mono_ransac_iters = 17\<rparr>\<rparr>"
proof -
  let ?s = "\<lparr>ref_frame = \<lparr>keypoints = [Point2f (1::real) 1, Point2f 2 2, Point2f 3 3],
                    landmarks = [10, 11, 12], landmarks_age = [1, 1, 1]\<rparr>,
      cur_frame = \<lparr>keypoints = [Point2f 1 2, Point2f 2 3, Point2f 3 4],
                    landmarks = [12, 10, 11], landmarks_age = [2, 2, 2]\<rparr>,
      debug_info = \<lparr>mono_ransac_iters = 0\<rparr>\<rparr>"
  have first: "removeOutliersMono [(0, 1), (2, 0), (1, 2)] [0, 2] 17 ?s =
     \<lparr>ref_frame = \<lparr>keypoints = [Point2f 1 1, Point2f 2 2, Point2f 3 3],
                    landmarks = [10, 11, - 1], landmarks_age = [1, 1, 1]\<rparr>,
      cur_frame = \<lparr>keypoints = [Point2f 1 2, Point2f 2 3, Point2f 3 4],
                    landmarks = [- 1, 10, 11], landmarks_age = [2, 2, 2]\<rparr>,
      debug_info = \<lparr>mono_ransac_iters = 17\<rparr>\<rparr>"
    by (simp add: removeOutliersMono_def findOutliers_def unassign_def upt_rec)
  with removeOutliersMono_idempotent [of "[(0, 1), (2, 0), (1, 2)]" "[0, 2]" 17 ?s]
  show ?thesis
    by simp
qed

end
